theory Spec2Isabelle
  imports Main
begin

section \<open>Python string operations used by song.py\<close>

text \<open>
  A Python \<open>str\<close> is a sequence of code points. The model covers the code points below
  256, one \<open>char\<close> each. \<open>isspace\<close> is the set of those code points that
  \<open>str.strip()\<close> and \<open>str.split()\<close> (both without argument) treat as whitespace.
\<close>

definition isspace :: "char \<Rightarrow> bool" where
  "isspace c = (c \<in> {CHR 0x09, CHR 0x0A, CHR 0x0B, CHR 0x0C, CHR 0x0D,
                      CHR 0x1C, CHR 0x1D, CHR 0x1E, CHR 0x1F, CHR 0x20,
                      CHR 0x85, CHR 0xA0})"

text \<open>\<open>s.strip()\<close>: leading and trailing whitespace removed.\<close>

definition strip :: "string \<Rightarrow> string" where
  "strip s = rev (dropWhile isspace (rev (dropWhile isspace s)))"

text \<open>
  \<open>s.split(sep, 1)\<close> for a one-character separator: a list of one part when the
  separator does not occur, of two parts (cut at the first occurrence) when it does.
\<close>

fun split1 :: "char \<Rightarrow> string \<Rightarrow> string list" where
  "split1 sep [] = [[]]"
| "split1 sep (c # cs) =
     (if c = sep then [[], cs]
      else (case split1 sep cs of
              [] \<Rightarrow> [[c]]
            | part # parts \<Rightarrow> (c # part) # parts))"

text \<open>
  \<open>s.split()\<close>: the maximal runs of non-whitespace characters, in order. The first
  argument of \<open>ws_tokens\<close> is the token being read, reversed.
\<close>

fun ws_tokens :: "string \<Rightarrow> string \<Rightarrow> string list" where
  "ws_tokens cur [] = (if cur = [] then [] else [rev cur])"
| "ws_tokens cur (c # cs) =
     (if isspace c
      then (if cur = [] then ws_tokens [] cs else rev cur # ws_tokens [] cs)
      else ws_tokens (c # cur) cs)"

definition split_ws :: "string \<Rightarrow> string list" where
  "split_ws s = ws_tokens [] s"

text \<open>\<open>s.lower()\<close> on the code points below 256.\<close>

definition lower_char :: "char \<Rightarrow> char" where
  "lower_char c =
     (let n = (of_char c :: nat)
      in if 65 \<le> n \<and> n \<le> 90 then char_of (n + 32)
         else if n = 215 then c
         else if 192 \<le> n \<and> n \<le> 222 then char_of (n + 32)
         else c)"

definition lower :: "string \<Rightarrow> string" where
  "lower s = map lower_char s"

text \<open>\<open>str(x)\<close> as \<open>str.format\<close> applies it to a field that is a string or None.\<close>

fun format_field :: "string option \<Rightarrow> string" where
  "format_field None = ''None''"
| "format_field (Some s) = s"


section \<open>The HTML tree of the structure reader\<close>

text \<open>
  The tree BeautifulSoup builds: an element carries its name, its attributes and its
  children; a text node carries its string. The document object is the list of the
  top-level nodes.
\<close>

datatype node =
    Tag string "(string \<times> string) list" "node list"
  | NavigableString string

fun contents :: "node \<Rightarrow> node list" where
  "contents (Tag n a cs) = cs"
| "contents (NavigableString s) = []"

text \<open>\<open>x.text\<close>: the strings of the subtree, concatenated in document order.\<close>

fun get_text :: "node \<Rightarrow> string" where
  "get_text (NavigableString s) = s"
| "get_text (Tag n a cs) = concat (map get_text cs)"

text \<open>\<open>soup.find(name)\<close>, which \<open>soup.h1\<close> and \<open>soup.body\<close> abbreviate: the first
  element of that name in document order, None when there is none.\<close>

fun find_tag :: "string \<Rightarrow> node list \<Rightarrow> node option" where
  "find_tag name [] = None"
| "find_tag name (NavigableString s # rest) = find_tag name rest"
| "find_tag name (Tag n a cs # rest) =
     (if n = name then Some (Tag n a cs)
      else (case find_tag name cs of
              Some t \<Rightarrow> Some t
            | None \<Rightarrow> find_tag name rest))"

text \<open>The tree after \<open>soup.find(name).extract()\<close>: that element is detached from its
  parent, everything else stays in place.\<close>

fun extract_tag :: "string \<Rightarrow> node list \<Rightarrow> node list" where
  "extract_tag name [] = []"
| "extract_tag name (NavigableString s # rest) = NavigableString s # extract_tag name rest"
| "extract_tag name (Tag n a cs # rest) =
     (if n = name then rest
      else (case find_tag name cs of
              Some t \<Rightarrow> Tag n a (extract_tag name cs) # rest
            | None \<Rightarrow> Tag n a cs # extract_tag name rest))"

text \<open>\<open>soup.findAll(...)\<close>: every element satisfying the filter, in document order
  (an element before its descendants).\<close>

fun find_all :: "(node \<Rightarrow> bool) \<Rightarrow> node list \<Rightarrow> node list" where
  "find_all P [] = []"
| "find_all P (NavigableString s # rest) = find_all P rest"
| "find_all P (Tag n a cs # rest) =
     (if P (Tag n a cs) then [Tag n a cs] else []) @ find_all P cs @ find_all P rest"

text \<open>The filter \<open>('span', {'class': 'chord'})\<close>: a span one of whose classes is
  \<open>chord\<close>.\<close>

fun is_chord_span :: "node \<Rightarrow> bool" where
  "is_chord_span (NavigableString s) = False"
| "is_chord_span (Tag n a cs) =
     (n = ''span'' \<and>
      (case map_of a ''class'' of
         None \<Rightarrow> False
       | Some v \<Rightarrow> ''chord'' \<in> set (split_ws v)))"

text \<open>The number of elements of a given name in a forest.\<close>

fun count_tag :: "string \<Rightarrow> node list \<Rightarrow> nat" where
  "count_tag name [] = 0"
| "count_tag name (NavigableString s # rest) = count_tag name rest"
| "count_tag name (Tag n a cs # rest) =
     (if n = name then 1 else 0) + count_tag name cs + count_tag name rest"


section \<open>The Song class\<close>

text \<open>The exceptions that the modelled statements can raise.\<close>

datatype error =
    AttributeError
  | IndexError
  | NameError
  | TypeError
  | OSError
  | UnicodeDecodeError

text \<open>
  The external collaborators of the class, taken as parameters:
  \<open>os.path.exists\<close>, reading a file with \<open>codecs.open\<close>, \<open>markdown.markdown\<close> with the
  two extensions, \<open>BeautifulSoup(raw_html, features='lxml')\<close>, and \<open>str\<close> of a node of
  the tree.
\<close>

record collaborators =
  path_exists :: "string \<Rightarrow> bool"
  read_file :: "string \<Rightarrow> error + string"
  render :: "string \<Rightarrow> string"
  html_reader :: "string \<Rightarrow> node list"
  node_str :: "node \<Rightarrow> string"

text \<open>The attributes that \<open>__parse\<close> sets, and the whole object.\<close>

record parse_attrs =
  title :: string
  artist :: "string option"
  chords :: "string list"
  body :: string

record Song = parse_attrs +
  markup :: "string option"
  filename :: "string option"
  tags :: "string set"

text \<open>
  Lines 98 to 102: the unpacking of the stripped parts into two names raises ValueError
  unless there are exactly two of them, and the handler takes the whole text as the title.
\<close>

definition split_header :: "string \<Rightarrow> string \<times> string option" where
  "split_header text =
     (case map strip (split1 (CHR ''-'') text) of
        [t, a] \<Rightarrow> (t, Some a)
      | _ \<Rightarrow> (strip text, None))"

text \<open>
  Lines 108 to 112: the loop over the chord spans. \<open>pop(0)\<close> on the empty list raises
  IndexError.
\<close>

fun chord_loop :: "node list \<Rightarrow> string list \<Rightarrow> error + string list" where
  "chord_loop [] chordlist = Inr chordlist"
| "chord_loop (crd # rest) chordlist =
     (case split_ws (get_text crd) of
        [] \<Rightarrow> Inl IndexError
      | cname # _ \<Rightarrow>
          chord_loop rest (if cname \<in> set chordlist then chordlist else chordlist @ [cname]))"

text \<open>
  \<open>__parse\<close> from line 97 on, on the tree the reader returned. \<open>soup.h1\<close> and
  \<open>soup.body\<close> are None when there is no such element, and an attribute access on None
  raises AttributeError. \<open>hdr.decompose()\<close> destroys the element that is already
  detached and leaves the tree as it is.
\<close>

definition parse_soup :: "(node \<Rightarrow> string) \<Rightarrow> node list \<Rightarrow> error + parse_attrs" where
  "parse_soup str_of soup =
     (case find_tag ''h1'' soup of
        None \<Rightarrow> Inl AttributeError
      | Some hdr \<Rightarrow>
          (let soup' = extract_tag ''h1'' soup;
               (title', artist') = split_header (get_text hdr)
           in case chord_loop (find_all is_chord_span soup') [] of
                Inl e \<Rightarrow> Inl e
              | Inr chordlist \<Rightarrow>
                  (case find_tag ''body'' soup' of
                     None \<Rightarrow> Inl AttributeError
                   | Some b \<Rightarrow>
                       Inr \<lparr>title = title', artist = artist', chords = chordlist,
                            body = concat (map str_of (contents b))\<rparr>)))"

text \<open>
  \<open>__parse\<close>. The markup is None when the file could not be read; the renderer then
  raises AttributeError on it.
\<close>

definition Song_parse :: "collaborators \<Rightarrow> string option \<Rightarrow> error + parse_attrs" where
  "Song_parse env mk =
     (case mk of
        None \<Rightarrow> Inl AttributeError
      | Some m \<Rightarrow> parse_soup (node_str env) (html_reader env (render env m)))"

text \<open>\<open>__load\<close>: IOError and OSError (one class in Python 3) are caught and leave the
  markup None; any other exception propagates.\<close>

definition Song_load :: "collaborators \<Rightarrow> string \<Rightarrow> error + string option" where
  "Song_load env sourcefile =
     (case read_file env sourcefile of
        Inr text \<Rightarrow> Inr (Some text)
      | Inl e \<Rightarrow> (if e = OSError then Inr None else Inl e))"

text \<open>
  The setters and the tag methods. Each returns the exception raised, if any, and the
  object as it is afterwards.
\<close>

definition set_markup :: "string \<Rightarrow> Song \<Rightarrow> error option \<times> Song" where
  "set_markup content s = (None, s\<lparr>markup := Some content\<rparr>)"

definition set_filename :: "string option \<Rightarrow> Song \<Rightarrow> error option \<times> Song" where
  "set_filename path s = (None, s\<lparr>filename := path\<rparr>)"

text \<open>Line 156 reads the name \<open>artist\<close>, which is bound neither in the setter nor in the
  module: the assignment raises NameError before anything is stored.\<close>

definition set_artist :: "string \<Rightarrow> Song \<Rightarrow> error option \<times> Song" where
  "set_artist v s = (Some NameError, s)"

definition set_title :: "string \<Rightarrow> Song \<Rightarrow> error option \<times> Song" where
  "set_title v s = (None, s\<lparr>title := v\<rparr>)"

text \<open>\<open>chords\<close> is a property without a setter: assigning to it raises AttributeError.\<close>

definition set_chords :: "string list \<Rightarrow> Song \<Rightarrow> error option \<times> Song" where
  "set_chords v s = (Some AttributeError, s)"

definition set_tags :: "string list \<Rightarrow> Song \<Rightarrow> error option \<times> Song" where
  "set_tags taglist s = (None, s\<lparr>tags := set taglist\<rparr>)"

definition tag :: "string \<Rightarrow> Song \<Rightarrow> error option \<times> Song" where
  "tag t s = (if t \<in> tags s then (None, s) else (None, s\<lparr>tags := insert t (tags s)\<rparr>))"

text \<open>Line 186 calls \<open>set.pop\<close> with an argument; \<open>set.pop\<close> takes none and raises
  TypeError before it touches the set.\<close>

definition untag :: "string \<Rightarrow> Song \<Rightarrow> error option \<times> Song" where
  "untag t s = (if t \<in> tags s then (Some TypeError, s) else (None, s))"

definition clear_tags :: "Song \<Rightarrow> error option \<times> Song" where
  "clear_tags s = (None, s\<lparr>tags := {}\<rparr>)"

text \<open>
  The keyword arguments of the constructor that name an attribute of the object, with
  values of the documented types. \<open>setattr\<close> goes through the property's setter where
  there is one; \<open>body\<close> is a plain attribute.
\<close>

datatype kwarg =
    KwMarkup string
  | KwFilename "string option"
  | KwTitle string
  | KwArtist string
  | KwTags "string list"
  | KwChords "string list"
  | KwBody string

fun setattr :: "kwarg \<Rightarrow> Song \<Rightarrow> error option \<times> Song" where
  "setattr (KwMarkup v) s = set_markup v s"
| "setattr (KwFilename v) s = set_filename v s"
| "setattr (KwTitle v) s = set_title v s"
| "setattr (KwArtist v) s = set_artist v s"
| "setattr (KwTags v) s = set_tags v s"
| "setattr (KwChords v) s = set_chords v s"
| "setattr (KwBody v) s = (None, s\<lparr>body := v\<rparr>)"

text \<open>Lines 64 and 65; an exception ends the constructor.\<close>

fun apply_kwargs :: "kwarg list \<Rightarrow> Song \<Rightarrow> error + Song" where
  "apply_kwargs [] s = Inr s"
| "apply_kwargs (kw # kws) s =
     (case setattr kw s of
        (Some e, _) \<Rightarrow> Inl e
      | (None, s') \<Rightarrow> apply_kwargs kws s')"

text \<open>Line 68.\<close>

definition default_filename :: "Song \<Rightarrow> string" where
  "default_filename s = lower (title s @ ''_-_'' @ format_field (artist s))"

text \<open>
  \<open>__init__\<close>. Line 50 assigns the filename in the file branch only; line 57 assigns it
  again on every path, so the object always has \<open>_filename = src\<close> when \<open>__parse\<close> is
  called.
\<close>

definition Song_init :: "collaborators \<Rightarrow> string \<Rightarrow> kwarg list \<Rightarrow> error + Song" where
  "Song_init env src kwargs =
     (case (if path_exists env src then Song_load env src else Inr (Some src)) of
        Inl e \<Rightarrow> Inl e
      | Inr mk \<Rightarrow>
          (let fname = Some src
           in case Song_parse env mk of
                Inl e \<Rightarrow> Inl e
              | Inr p \<Rightarrow>
                  (case apply_kwargs kwargs
                          \<lparr>title = title p, artist = artist p, chords = chords p,
                           body = body p, markup = mk, filename = fname, tags = {}\<rparr> of
                     Inl e \<Rightarrow> Inl e
                   | Inr s \<Rightarrow>
                       Inr (if filename s = None
                            then s\<lparr>filename := Some (default_filename s)\<rparr>
                            else s))))"


section \<open>Specification-side notions\<close>

text \<open>Each element once, at the position of its first occurrence.\<close>

fun first_seen :: "'a list \<Rightarrow> 'a list" where
  "first_seen [] = []"
| "first_seen (x # xs) = x # filter (\<lambda>y. y \<noteq> x) (first_seen xs)"

text \<open>The first whitespace-delimited token of a text, read off directly.\<close>

definition first_token :: "string \<Rightarrow> string" where
  "first_token s = takeWhile (\<lambda>c. \<not> isspace c) (dropWhile isspace s)"

text \<open>A text occurs in another as a contiguous part.\<close>

fun occurs_in :: "string \<Rightarrow> string \<Rightarrow> bool" where
  "occurs_in needle [] = (needle = [])"
| "occurs_in needle (c # cs) =
     (take (length needle) (c # cs) = needle \<or> occurs_in needle cs)"


section \<open>Worked examples\<close>

text \<open>
  A plain string form of a node, for the examples: an element as its start tag, its
  children and its end tag, a text node with the three markup characters escaped.
\<close>

definition escape_char :: "char \<Rightarrow> string" where
  "escape_char c =
     (if c = CHR ''&'' then ''&amp;''
      else if c = CHR ''<'' then ''&lt;''
      else if c = CHR ''>'' then ''&gt;''
      else [c])"

definition show_attr :: "string \<times> string \<Rightarrow> string" where
  "show_attr kv = '' '' @ fst kv @ ''='' @ [CHR 0x22] @ snd kv @ [CHR 0x22]"

fun html_str :: "node \<Rightarrow> string" where
  "html_str (NavigableString s) = concat (map escape_char s)"
| "html_str (Tag n a cs) =
     ''<'' @ n @ concat (map show_attr a) @ ''>'' @ concat (map html_str cs) @ ''</'' @ n @ ''>''"

definition nl :: string where
  "nl = [CHR 0x0A]"

definition chord :: "string \<Rightarrow> node" where
  "chord s = Tag ''span'' [(''class'', ''chord'')] [NavigableString s]"

text \<open>The end-to-end example of the specification.\<close>

definition letitbe_markup :: string where
  "letitbe_markup = ''# Let It Be - The Beatles'' @ nl @ nl @ ''Let it [Am]be, let it [C]be'' @ nl"

definition letitbe_header :: node where
  "letitbe_header = Tag ''h1'' [] [NavigableString ''Let It Be - The Beatles'']"

definition letitbe_para :: node where
  "letitbe_para =
     Tag ''p'' [] [NavigableString ''Let it '', chord ''Am'', NavigableString ''be, let it '',
                  chord ''C'', NavigableString ''be'']"

definition letitbe_soup :: "node list" where
  "letitbe_soup = [Tag ''html'' [] [Tag ''body'' [] [letitbe_header, NavigableString nl, letitbe_para]]]"

text \<open>A header without separator, and lyrics that begin with the title.\<close>

definition yesterday_markup :: string where
  "yesterday_markup = ''# Yesterday'' @ nl @ nl @ ''Yesterday, all my troubles'' @ nl"

definition yesterday_header :: node where
  "yesterday_header = Tag ''h1'' [] [NavigableString ''Yesterday'']"

definition yesterday_soup :: "node list" where
  "yesterday_soup =
     [Tag ''html'' [] [Tag ''body'' []
        [yesterday_header, NavigableString nl,
         Tag ''p'' [] [NavigableString ''Yesterday, all my troubles'']]]]"

text \<open>Five chord spans, one of them with fingering after the name.\<close>

definition riff_markup :: string where
  "riff_markup = ''# Riff'' @ nl @ nl @ ''[Am][C][Am x02210][G][C]'' @ nl"

definition riff_spans :: "node list" where
  "riff_spans = [chord ''Am'', chord ''C'', chord ''Am x02210'', chord ''G'', chord ''C'']"

definition riff_soup :: "node list" where
  "riff_soup =
     [Tag ''html'' [] [Tag ''body'' []
        [Tag ''h1'' [] [NavigableString ''Riff''], NavigableString nl, Tag ''p'' [] riff_spans]]]"

text \<open>A chord span with blank text, without and with a header before it.\<close>

definition blank_markup :: string where
  "blank_markup = ''la [ ] la'' @ nl"

definition blank_soup :: "node list" where
  "blank_soup =
     [Tag ''html'' [] [Tag ''body'' []
        [Tag ''p'' [] [NavigableString ''la '', chord '' '', NavigableString '' la'']]]]"

definition headed_blank_markup :: string where
  "headed_blank_markup = ''# Hum'' @ nl @ nl @ ''la [ ] la'' @ nl"

definition headed_blank_soup :: "node list" where
  "headed_blank_soup =
     [Tag ''html'' [] [Tag ''body'' []
        [Tag ''h1'' [] [NavigableString ''Hum''], NavigableString nl,
         Tag ''p'' [] [NavigableString ''la '', chord '' '', NavigableString '' la'']]]]"

text \<open>
  Collaborators fixed on these inputs: the renderer returns the string form of what it
  renders, the reader the tree of that string. One file exists, \<open>notes.udn\<close>, and it
  holds the markup without header.
\<close>

definition page :: "node list \<Rightarrow> string" where
  "page soup = concat (map html_str soup)"

definition example_render :: "string \<Rightarrow> string" where
  "example_render m =
     (if m = letitbe_markup then page letitbe_soup
      else if m = yesterday_markup then page yesterday_soup
      else if m = riff_markup then page riff_soup
      else if m = blank_markup then page blank_soup
      else if m = headed_blank_markup then page headed_blank_soup
      else [])"

definition example_reader :: "string \<Rightarrow> node list" where
  "example_reader h =
     (if h = page letitbe_soup then letitbe_soup
      else if h = page yesterday_soup then yesterday_soup
      else if h = page riff_soup then riff_soup
      else if h = page blank_soup then blank_soup
      else if h = page headed_blank_soup then headed_blank_soup
      else [])"

definition example_env :: collaborators where
  "example_env =
     \<lparr>path_exists = (\<lambda>p. p = ''notes.udn''),
      read_file = (\<lambda>p. if p = ''notes.udn'' then Inr blank_markup else Inl OSError),
      render = example_render,
      html_reader = example_reader,
      node_str = html_str\<rparr>"

definition letitbe_attrs :: parse_attrs where
  "letitbe_attrs =
     \<lparr>title = ''Let It Be'', artist = Some ''The Beatles'', chords = [''Am'', ''C''],
      body = nl @ html_str letitbe_para\<rparr>"

definition letitbe_song :: Song where
  "letitbe_song =
     \<lparr>title = ''Let It Be'', artist = Some ''The Beatles'', chords = [''Am'', ''C''],
      body = nl @ html_str letitbe_para,
      markup = Some letitbe_markup, filename = Some letitbe_markup, tags = {}\<rparr>"

definition yesterday_attrs :: parse_attrs where
  "yesterday_attrs =
     \<lparr>title = ''Yesterday'', artist = None, chords = [],
      body = nl @ ''<p>Yesterday, all my troubles</p>''\<rparr>"


definition riff_attrs :: parse_attrs where
  "riff_attrs =
     \<lparr>title = ''Riff'', artist = None, chords = [''Am'', ''C'', ''G''],
      body = nl @ html_str (Tag ''p'' [] riff_spans)\<rparr>"


section \<open>Auxiliary facts\<close>

lemmas example_defs = example_env_def example_render_def example_reader_def page_def
  letitbe_markup_def letitbe_soup_def letitbe_header_def letitbe_para_def
  yesterday_markup_def yesterday_soup_def yesterday_header_def
  riff_markup_def riff_soup_def riff_spans_def
  blank_markup_def blank_soup_def headed_blank_markup_def headed_blank_soup_def
  nl_def chord_def show_attr_def escape_char_def

lemmas parse_defs = Song_parse_def parse_soup_def split_header_def strip_def split_ws_def
  isspace_def Let_def

subsection \<open>Strings\<close>

lemma split1_absent: "sep \<notin> set s \<Longrightarrow> split1 sep s = [s]"
  by (induction s) auto

lemma split1_present:
  "sep \<in> set s \<Longrightarrow>
   split1 sep s = [takeWhile (\<lambda>c. c \<noteq> sep) s, tl (dropWhile (\<lambda>c. c \<noteq> sep) s)]"
  by (induction s) (auto simp: split1_absent)

lemma split_header_dash:
  "CHR ''-'' \<in> set text \<Longrightarrow>
   split_header text =
     (strip (takeWhile (\<lambda>c. c \<noteq> CHR ''-'') text),
      Some (strip (tl (dropWhile (\<lambda>c. c \<noteq> CHR ''-'') text))))"
  by (simp add: split_header_def split1_present)

lemma split_header_plain:
  "CHR ''-'' \<notin> set text \<Longrightarrow> split_header text = (strip text, None)"
  by (simp add: split_header_def split1_absent)

lemma ws_tokens_Nil: "ws_tokens cur s = [] \<longleftrightarrow> cur = [] \<and> (\<forall>c\<in>set s. isspace c)"
  by (induction s arbitrary: cur) auto

lemma split_ws_blank: "split_ws s = [] \<longleftrightarrow> (\<forall>c\<in>set s. isspace c)"
  by (simp add: split_ws_def ws_tokens_Nil)

lemma ws_tokens_hd_cur:
  "ws_tokens cur s = x # xs \<Longrightarrow> cur \<noteq> [] \<Longrightarrow>
   x = rev cur @ takeWhile (\<lambda>c. \<not> isspace c) s"
proof (induction s arbitrary: cur)
  case Nil
  then show ?case by simp
next
  case (Cons c cs)
  show ?case
  proof (cases "isspace c")
    case True
    with Cons.prems show ?thesis by simp
  next
    case False
    with Cons.prems have "ws_tokens (c # cur) cs = x # xs" by simp
    then have "x = rev (c # cur) @ takeWhile (\<lambda>c. \<not> isspace c) cs"
      by (rule Cons.IH) simp
    with False show ?thesis by simp
  qed
qed

lemma ws_tokens_hd: "ws_tokens [] s = x # xs \<Longrightarrow> x = first_token s"
  unfolding first_token_def
  by (induction s) (auto split: if_splits dest: ws_tokens_hd_cur)

lemma split_ws_hd: "split_ws s = x # xs \<Longrightarrow> x = first_token s"
  by (simp add: split_ws_def ws_tokens_hd)

subsection \<open>First occurrences\<close>

lemma first_seen_filter: "first_seen (filter P xs) = filter P (first_seen xs)"
  by (induction xs) (auto simp: conj_commute intro!: filter_cong)

lemma set_first_seen: "set (first_seen xs) = set xs"
  by (induction xs) auto

lemma distinct_first_seen: "distinct (first_seen xs)"
  by (induction xs) (auto simp: set_first_seen)

subsection \<open>The chord loop\<close>

lemma chord_loop_Inr:
  "chord_loop spans acc = Inr cs \<Longrightarrow>
   cs = acc @ first_seen (filter (\<lambda>x. x \<notin> set acc) (map (\<lambda>crd. first_token (get_text crd)) spans))"
proof (induction spans arbitrary: acc)
  case Nil
  then show ?case by simp
next
  case (Cons crd rest)
  from Cons.prems obtain cname more where tok: "split_ws (get_text crd) = cname # more"
    by (cases "split_ws (get_text crd)") auto
  then have cname: "first_token (get_text crd) = cname"
    using split_ws_hd by blast
  show ?case
  proof (cases "cname \<in> set acc")
    case True
    with Cons.prems tok have "chord_loop rest acc = Inr cs" by simp
    from Cons.IH [OF this] True cname show ?thesis by simp
  next
    case False
    with Cons.prems tok have "chord_loop rest (acc @ [cname]) = Inr cs" by simp
    from Cons.IH [OF this] False cname show ?thesis
      by (simp add: first_seen_filter [symmetric] conj_commute)
  qed
qed

lemma chord_loop_blank:
  "crd \<in> set spans \<Longrightarrow> split_ws (get_text crd) = [] \<Longrightarrow> chord_loop spans acc = Inl IndexError"
proof (induction spans arbitrary: acc)
  case Nil
  then show ?case by simp
next
  case (Cons c rest)
  then show ?case by (cases "split_ws (get_text c)") auto
qed

subsection \<open>The tree\<close>

lemma find_tag_name: "find_tag name ns = Some h \<Longrightarrow> \<exists>a cs. h = Tag name a cs"
  by (induction name ns rule: find_tag.induct) (auto split: if_splits option.splits)

lemma count_extract:
  "find_tag name ns = Some h \<Longrightarrow>
   count_tag name (extract_tag name ns) + count_tag name [h] = count_tag name ns"
  by (induction name ns rule: find_tag.induct) (auto split: if_splits option.splits)

lemma count_found:
  "find_tag name ns = Some t \<Longrightarrow> count_tag m (contents t) \<le> count_tag m ns"
  by (induction name ns rule: find_tag.induct) (auto split: if_splits option.splits)

lemma count_found_self:
  "find_tag name ns = Some h \<Longrightarrow> 1 \<le> count_tag name [h]"
  by (auto dest: find_tag_name)

subsection \<open>parse\<close>

lemma parse_soup_Inr:
  assumes "parse_soup str_of soup = Inr r"
  obtains hdr b where
    "find_tag ''h1'' soup = Some hdr"
    "chord_loop (find_all is_chord_span (extract_tag ''h1'' soup)) [] = Inr (chords r)"
    "find_tag ''body'' (extract_tag ''h1'' soup) = Some b"
    "title r = fst (split_header (get_text hdr))"
    "artist r = snd (split_header (get_text hdr))"
    "body r = concat (map str_of (contents b))"
  using assms
  by (auto simp: parse_soup_def Let_def split: option.splits sum.splits prod.splits)


subsection \<open>The worked examples, evaluated\<close>

lemma example_soup:
  "html_reader example_env (render example_env letitbe_markup) = letitbe_soup"
  "html_reader example_env (render example_env yesterday_markup) = yesterday_soup"
  "html_reader example_env (render example_env riff_markup) = riff_soup"
  "html_reader example_env (render example_env blank_markup) = blank_soup"
  "html_reader example_env (render example_env headed_blank_markup) = headed_blank_soup"
  by (simp_all add: example_defs)

lemma letitbe_parse: "Song_parse example_env (Some letitbe_markup) = Inr letitbe_attrs"
  by (simp add: Song_parse_def example_soup)
     (simp add: example_defs parse_defs letitbe_attrs_def)

lemma yesterday_parse: "Song_parse example_env (Some yesterday_markup) = Inr yesterday_attrs"
  by (simp add: Song_parse_def example_soup)
     (simp add: example_defs parse_defs yesterday_attrs_def)


section \<open>The claims\<close>

text \<open>
  Claim C1. When \<open>__parse\<close> returns, the title and the artist come from the text of the
  level-1 heading that \<open>soup.h1\<close> finds. If that text contains the character \<open>-\<close>, the
  title is the part before its first occurrence and the artist the part after it, each
  trimmed of surrounding whitespace. If it contains none, the title is the whole text
  trimmed and the artist is None, which is not the empty string.
\<close>

theorem header_split:
  assumes "Song_parse env (Some m) = Inr r"
    and "find_tag ''h1'' (html_reader env (render env m)) = Some hdr"
  shows "(CHR ''-'' \<in> set (get_text hdr) \<longrightarrow>
            title r = strip (takeWhile (\<lambda>c. c \<noteq> CHR ''-'') (get_text hdr)) \<and>
            artist r = Some (strip (tl (dropWhile (\<lambda>c. c \<noteq> CHR ''-'') (get_text hdr))))) \<and>
         (CHR ''-'' \<notin> set (get_text hdr) \<longrightarrow>
            title r = strip (get_text hdr) \<and> artist r = None)"
proof -
  from assms(1) have "parse_soup (node_str env) (html_reader env (render env m)) = Inr r"
    by (simp add: Song_parse_def)
  then obtain hdr' where
    "find_tag ''h1'' (html_reader env (render env m)) = Some hdr'"
    "title r = fst (split_header (get_text hdr'))"
    "artist r = snd (split_header (get_text hdr'))"
    by (rule parse_soup_Inr)
  with assms(2) have "title r = fst (split_header (get_text hdr))"
    and "artist r = snd (split_header (get_text hdr))"
    by simp_all
  then show ?thesis
    by (simp add: split_header_dash split_header_plain)
qed

theorem header_split_witness:
  "Song_parse example_env (Some letitbe_markup) = Inr letitbe_attrs \<and>
   find_tag ''h1'' (html_reader example_env (render example_env letitbe_markup)) = Some letitbe_header \<and>
   CHR ''-'' \<in> set (get_text letitbe_header) \<and>
   title letitbe_attrs = ''Let It Be'' \<and> artist letitbe_attrs = Some ''The Beatles'' \<and>
   Song_parse example_env (Some yesterday_markup) = Inr yesterday_attrs \<and>
   find_tag ''h1'' (html_reader example_env (render example_env yesterday_markup)) = Some yesterday_header \<and>
   CHR ''-'' \<notin> set (get_text yesterday_header) \<and>
   title yesterday_attrs = ''Yesterday'' \<and> artist yesterday_attrs = None"
proof -
  have a: "find_tag ''h1'' (html_reader example_env (render example_env letitbe_markup)) = Some letitbe_header"
    by (simp add: example_soup) (simp add: letitbe_soup_def letitbe_header_def)
  have b: "find_tag ''h1'' (html_reader example_env (render example_env yesterday_markup)) = Some yesterday_header"
    by (simp add: example_soup) (simp add: yesterday_soup_def yesterday_header_def)
  have c: "CHR ''-'' \<in> set (get_text letitbe_header)"
    by (simp add: letitbe_header_def)
  have d: "CHR ''-'' \<notin> set (get_text yesterday_header)"
    by (simp add: yesterday_header_def)
  from header_split [OF letitbe_parse a] c
  have "title letitbe_attrs = ''Let It Be'' \<and> artist letitbe_attrs = Some ''The Beatles''"
    by (simp add: letitbe_header_def strip_def isspace_def)
  moreover from header_split [OF yesterday_parse b] d
  have "title yesterday_attrs = ''Yesterday'' \<and> artist yesterday_attrs = None"
    by (simp add: yesterday_header_def strip_def isspace_def)
  ultimately show ?thesis
    using letitbe_parse yesterday_parse a b c d by simp
qed

lemma riff_parse: "Song_parse example_env (Some riff_markup) = Inr riff_attrs"
  by (simp add: Song_parse_def example_soup)
     (simp add: example_defs parse_defs riff_attrs_def)

text \<open>
  Claim C2. When \<open>__parse\<close> returns, the chord list is the list of the first
  whitespace-delimited tokens of the texts of the chord spans, taken in document order
  over the tree without the header, with every name kept once, at the place of its first
  occurrence. The spans Am, C, Am x02210, G, C give Am, C, G.
\<close>

theorem chords_first_seen:
  assumes "Song_parse env (Some m) = Inr r"
  shows "chords r =
           first_seen (map (\<lambda>crd. first_token (get_text crd))
             (find_all is_chord_span (extract_tag ''h1'' (html_reader env (render env m))))) \<and>
         distinct (chords r)"
proof -
  from assms have "parse_soup (node_str env) (html_reader env (render env m)) = Inr r"
    by (simp add: Song_parse_def)
  then have "chord_loop (find_all is_chord_span
               (extract_tag ''h1'' (html_reader env (render env m)))) [] = Inr (chords r)"
    by (rule parse_soup_Inr)
  from chord_loop_Inr [OF this]
  have "chords r =
          first_seen (map (\<lambda>crd. first_token (get_text crd))
            (find_all is_chord_span (extract_tag ''h1'' (html_reader env (render env m)))))"
    by simp
  then show ?thesis
    by (simp add: distinct_first_seen)
qed

theorem chords_first_seen_witness:
  "Song_parse example_env (Some riff_markup) = Inr riff_attrs \<and>
   find_all is_chord_span
     (extract_tag ''h1'' (html_reader example_env (render example_env riff_markup))) = riff_spans \<and>
   map get_text riff_spans = [''Am'', ''C'', ''Am x02210'', ''G'', ''C''] \<and>
   map (\<lambda>crd. first_token (get_text crd)) riff_spans = [''Am'', ''C'', ''Am'', ''G'', ''C''] \<and>
   chords riff_attrs = [''Am'', ''C'', ''G'']"
proof -
  have a: "find_all is_chord_span
     (extract_tag ''h1'' (html_reader example_env (render example_env riff_markup))) = riff_spans"
    by (simp add: example_soup)
       (simp add: riff_soup_def riff_spans_def chord_def split_ws_def isspace_def)
  have b: "map get_text riff_spans = [''Am'', ''C'', ''Am x02210'', ''G'', ''C'']"
    by (simp add: riff_spans_def chord_def)
  have c: "map (\<lambda>crd. first_token (get_text crd)) riff_spans = [''Am'', ''C'', ''Am'', ''G'', ''C'']"
    by (simp add: riff_spans_def chord_def first_token_def isspace_def)
  from chords_first_seen [OF riff_parse] a c have "chords riff_attrs = [''Am'', ''C'', ''G'']"
    by simp
  with riff_parse a b c show ?thesis by simp
qed

text \<open>
  Claim C3, as stated, fails in its last part: the body can contain the header's text.
  The markup \<open># Yesterday\<close>, blank line, \<open>Yesterday, all my troubles\<close> has the header
  text \<open>Yesterday\<close>, and the body, which is the paragraph, contains it.
\<close>

theorem body_contains_header_text:
  "Song_parse example_env (Some yesterday_markup) = Inr yesterday_attrs \<and>
   find_tag ''h1'' (html_reader example_env (render example_env yesterday_markup)) = Some yesterday_header \<and>
   get_text yesterday_header = ''Yesterday'' \<and>
   body yesterday_attrs = nl @ ''<p>Yesterday, all my troubles</p>'' \<and>
   occurs_in (get_text yesterday_header) (body yesterday_attrs)"
proof -
  have "find_tag ''h1'' (html_reader example_env (render example_env yesterday_markup)) = Some yesterday_header"
    by (simp add: example_soup) (simp add: yesterday_soup_def yesterday_header_def)
  moreover have "get_text yesterday_header = ''Yesterday''"
    by (simp add: yesterday_header_def)
  moreover have "occurs_in ''Yesterday'' (body yesterday_attrs)"
    by (simp add: yesterday_attrs_def nl_def)
  ultimately show ?thesis
    using yesterday_parse by (simp add: yesterday_attrs_def)
qed

text \<open>
  Claim C3, amended. When \<open>__parse\<close> returns, the body is the concatenation, in document
  order and with nothing between them, of the string forms of the children of the
  \<open>body\<close> element in the tree from which the heading found by \<open>soup.h1\<close> has been
  detached. That heading is not part of what is serialised: the tree loses exactly the
  level-1 headings of the detached subtree, and when the rendered output has exactly one
  level-1 heading, no level-1 heading is among the serialised nodes. Text equal to the
  header's text may still occur in the body where the document has it outside the heading.
\<close>

theorem body_serialised:
  assumes "Song_parse env (Some m) = Inr r"
  shows "\<exists>hdr b.
           find_tag ''h1'' (html_reader env (render env m)) = Some hdr \<and>
           find_tag ''body'' (extract_tag ''h1'' (html_reader env (render env m))) = Some b \<and>
           body r = concat (map (node_str env) (contents b)) \<and>
           count_tag ''h1'' (extract_tag ''h1'' (html_reader env (render env m))) + count_tag ''h1'' [hdr] =
             count_tag ''h1'' (html_reader env (render env m)) \<and>
           (count_tag ''h1'' (html_reader env (render env m)) = 1 \<longrightarrow>
              count_tag ''h1'' (contents b) = 0)"
proof -
  let ?soup = "html_reader env (render env m)"
  from assms have "parse_soup (node_str env) ?soup = Inr r"
    by (simp add: Song_parse_def)
  then obtain hdr b where
    hdr: "find_tag ''h1'' ?soup = Some hdr" and
    b: "find_tag ''body'' (extract_tag ''h1'' ?soup) = Some b" and
    body: "body r = concat (map (node_str env) (contents b))"
    by (rule parse_soup_Inr)
  have cnt: "count_tag ''h1'' (extract_tag ''h1'' ?soup) + count_tag ''h1'' [hdr] = count_tag ''h1'' ?soup"
    using hdr by (rule count_extract)
  have one: "1 \<le> count_tag ''h1'' [hdr]"
    using hdr by (rule count_found_self)
  have le: "count_tag ''h1'' (contents b) \<le> count_tag ''h1'' (extract_tag ''h1'' ?soup)"
    using b by (rule count_found)
  have "count_tag ''h1'' ?soup = 1 \<longrightarrow> count_tag ''h1'' (contents b) = 0"
    using cnt one le by arith
  with hdr b body cnt show ?thesis by blast
qed

theorem body_serialised_witness:
  "Song_parse example_env (Some letitbe_markup) = Inr letitbe_attrs \<and>
   find_tag ''h1'' (html_reader example_env (render example_env letitbe_markup)) = Some letitbe_header \<and>
   find_tag ''body'' (extract_tag ''h1'' (html_reader example_env (render example_env letitbe_markup))) =
     Some (Tag ''body'' [] [NavigableString nl, letitbe_para]) \<and>
   count_tag ''h1'' (html_reader example_env (render example_env letitbe_markup)) = 1 \<and>
   body letitbe_attrs = node_str example_env (NavigableString nl) @ node_str example_env letitbe_para \<and>
   count_tag ''h1'' [NavigableString nl, letitbe_para] = 0"
proof -
  let ?soup = "html_reader example_env (render example_env letitbe_markup)"
  have a: "find_tag ''h1'' ?soup = Some letitbe_header"
    by (simp add: example_soup) (simp add: letitbe_soup_def letitbe_header_def)
  have b: "find_tag ''body'' (extract_tag ''h1'' ?soup) =
             Some (Tag ''body'' [] [NavigableString nl, letitbe_para])"
    by (simp add: example_soup) (simp add: letitbe_soup_def letitbe_header_def letitbe_para_def)
  have c: "count_tag ''h1'' ?soup = 1"
    by (simp add: example_soup) (simp add: letitbe_soup_def letitbe_header_def letitbe_para_def chord_def)
  from body_serialised [OF letitbe_parse] a b c
  have "body letitbe_attrs =
          node_str example_env (NavigableString nl) @ node_str example_env letitbe_para \<and>
        count_tag ''h1'' [NavigableString nl, letitbe_para] = 0"
    by simp
  with letitbe_parse a b c show ?thesis by simp
qed

lemma Song_init_parse_error:
  "Song_parse env mk = Inl e \<Longrightarrow>
   (if path_exists env src then Song_load env src else Inr (Some src)) = Inr mk \<Longrightarrow>
   Song_init env src kwargs = Inl e"
  by (simp add: Song_init_def)

text \<open>
  Claim C4. When the rendered output has no level-1 heading, \<open>soup.h1\<close> is None and line
  97 raises (Python's AttributeError; the specification names this failure
  MalformedInput). Nothing catches it: \<open>__parse\<close> fails, and so does the constructor,
  whether the markup was given as text or read from a file, so no Song is produced.
\<close>

theorem missing_header:
  assumes "find_tag ''h1'' (html_reader env (render env m)) = None"
  shows "Song_parse env (Some m) = Inl AttributeError \<and>
         (\<not> path_exists env m \<longrightarrow> Song_init env m kwargs = Inl AttributeError) \<and>
         (path_exists env p \<and> read_file env p = Inr m \<longrightarrow>
            Song_init env p kwargs = Inl AttributeError)"
proof -
  from assms have parse: "Song_parse env (Some m) = Inl AttributeError"
    by (simp add: Song_parse_def parse_soup_def)
  then show ?thesis
    by (auto simp: Song_load_def intro!: Song_init_parse_error)
qed

theorem missing_header_witness:
  "find_tag ''h1'' (html_reader example_env (render example_env blank_markup)) = None \<and>
   Song_parse example_env (Some blank_markup) = Inl AttributeError \<and>
   \<not> path_exists example_env blank_markup \<and>
   Song_init example_env blank_markup [] = Inl AttributeError \<and>
   path_exists example_env ''notes.udn'' \<and>
   read_file example_env ''notes.udn'' = Inr blank_markup \<and>
   Song_init example_env ''notes.udn'' [] = Inl AttributeError"
proof -
  have a: "find_tag ''h1'' (html_reader example_env (render example_env blank_markup)) = None"
    by (simp add: example_soup) (simp add: blank_soup_def chord_def)
  have b: "\<not> path_exists example_env blank_markup"
    by (simp add: example_env_def blank_markup_def)
  have c: "path_exists example_env ''notes.udn'' \<and> read_file example_env ''notes.udn'' = Inr blank_markup"
    by (simp add: example_env_def)
  from missing_header [OF a, of "[]" "''notes.udn''"] a b c show ?thesis
    by simp
qed

text \<open>
  Claim C5. A Song constructed from a markup text that is not the path of an existing
  file stores that text unchanged, and a second Song constructed from the stored markup
  has the same title, artist, chords and body.
\<close>

theorem round_trip:
  assumes "\<not> path_exists env m" and "Song_init env m [] = Inr s"
  shows "(case markup s of
            None \<Rightarrow> False
          | Some stored \<Rightarrow>
              stored = m \<and>
              (\<exists>s'. Song_init env stored [] = Inr s' \<and>
                    title s' = title s \<and> artist s' = artist s \<and>
                    chords s' = chords s \<and> body s' = body s))"
proof -
  from assms have "markup s = Some m"
    by (auto simp: Song_init_def Let_def split: sum.splits if_splits)
  with assms(2) show ?thesis by simp
qed

lemma letitbe_init: "Song_init example_env letitbe_markup [] = Inr letitbe_song"
proof -
  have "\<not> path_exists example_env letitbe_markup"
    by (simp add: example_env_def letitbe_markup_def)
  then show ?thesis
    by (simp add: Song_init_def Let_def letitbe_parse letitbe_attrs_def letitbe_song_def)
qed

theorem round_trip_witness:
  "\<not> path_exists example_env letitbe_markup \<and>
   Song_init example_env letitbe_markup [] = Inr letitbe_song \<and>
   markup letitbe_song = Some letitbe_markup \<and>
   (\<exists>s'. Song_init example_env letitbe_markup [] = Inr s' \<and>
         title s' = title letitbe_song \<and> artist s' = artist letitbe_song \<and>
         chords s' = chords letitbe_song \<and> body s' = body letitbe_song)"
proof -
  have a: "\<not> path_exists example_env letitbe_markup"
    by (simp add: example_env_def letitbe_markup_def)
  from round_trip [OF a letitbe_init] a letitbe_init show ?thesis
    by (auto split: option.splits)
qed

text \<open>
  Claim C8. \<open>untag\<close> with a tag that the Song does not have, a Song without tags
  included, returns normally and leaves the object as it is.
\<close>

theorem untag_absent: "t \<notin> tags s \<Longrightarrow> untag t s = (None, s)"
  by (simp add: untag_def)

theorem untag_absent_witness:
  "''draft'' \<notin> tags letitbe_song \<and> untag ''draft'' letitbe_song = (None, letitbe_song) \<and>
   ''draft'' \<notin> tags (snd (tag ''tested'' letitbe_song)) \<and>
   untag ''draft'' (snd (tag ''tested'' letitbe_song)) = (None, snd (tag ''tested'' letitbe_song))"
proof -
  have a: "''draft'' \<notin> tags letitbe_song"
    by (simp add: letitbe_song_def)
  have b: "''draft'' \<notin> tags (snd (tag ''tested'' letitbe_song))"
    by (simp add: letitbe_song_def tag_def)
  from untag_absent [OF a] untag_absent [OF b] a b show ?thesis by simp
qed

text \<open>
  Claim C9. \<open>untag\<close> with a tag that the Song has raises TypeError and removes nothing:
  the object, its tags included, is as before.
\<close>

theorem untag_present: "t \<in> tags s \<Longrightarrow> untag t s = (Some TypeError, s)"
  by (simp add: untag_def)

theorem untag_present_witness:
  "''tested'' \<in> tags (snd (tag ''tested'' letitbe_song)) \<and>
   untag ''tested'' (snd (tag ''tested'' letitbe_song)) =
     (Some TypeError, snd (tag ''tested'' letitbe_song)) \<and>
   tags (snd (untag ''tested'' (snd (tag ''tested'' letitbe_song)))) = {''tested''}"
proof -
  have a: "''tested'' \<in> tags (snd (tag ''tested'' letitbe_song))"
    by (simp add: letitbe_song_def tag_def)
  from untag_present [OF a] a show ?thesis
    by (simp add: letitbe_song_def tag_def)
qed

text \<open>
  Claim C10, as stated, fails where the rendered output has a blank chord span and no
  level-1 heading: line 97 raises first, and the error is the one of claim C4, not
  IndexError.
\<close>

theorem blank_chord_without_header:
  "find_all is_chord_span (html_reader example_env (render example_env blank_markup)) = [chord '' ''] \<and>
   get_text (chord '' '') = '' '' \<and>
   Song_parse example_env (Some blank_markup) = Inl AttributeError \<and>
   Song_parse example_env (Some blank_markup) \<noteq> Inl IndexError"
proof -
  have "find_all is_chord_span (html_reader example_env (render example_env blank_markup)) = [chord '' '']"
    by (simp add: example_soup)
       (simp add: blank_soup_def chord_def split_ws_def isspace_def)
  moreover have "get_text (chord '' '') = '' ''"
    by (simp add: chord_def)
  moreover have "Song_parse example_env (Some blank_markup) = Inl AttributeError"
    by (simp add: Song_parse_def example_soup)
       (simp add: parse_soup_def blank_soup_def chord_def)
  ultimately show ?thesis by simp
qed

text \<open>
  Claim C10, amended. When the rendered output has a level-1 heading and, in the tree
  without the heading that \<open>soup.h1\<close> finds, a chord span whose text is empty or
  consists of whitespace only, \<open>__parse\<close> fails with IndexError, and so does the
  constructor called with that markup.
\<close>

theorem blank_chord_span:
  assumes "find_tag ''h1'' (html_reader env (render env m)) = Some hdr"
    and "crd \<in> set (find_all is_chord_span (extract_tag ''h1'' (html_reader env (render env m))))"
    and "\<forall>c\<in>set (get_text crd). isspace c"
  shows "Song_parse env (Some m) = Inl IndexError \<and>
         (\<not> path_exists env m \<longrightarrow> Song_init env m kwargs = Inl IndexError)"
proof -
  from assms(3) have "split_ws (get_text crd) = []"
    by (simp add: split_ws_blank)
  with assms(2)
  have "chord_loop (find_all is_chord_span (extract_tag ''h1'' (html_reader env (render env m)))) [] =
          Inl IndexError"
    by (rule chord_loop_blank)
  with assms(1) have "Song_parse env (Some m) = Inl IndexError"
    by (simp add: Song_parse_def parse_soup_def Let_def split: prod.splits)
  then show ?thesis
    by (auto intro!: Song_init_parse_error)
qed

theorem blank_chord_span_witness:
  "find_tag ''h1'' (html_reader example_env (render example_env headed_blank_markup)) =
     Some (Tag ''h1'' [] [NavigableString ''Hum'']) \<and>
   chord '' '' \<in> set (find_all is_chord_span
     (extract_tag ''h1'' (html_reader example_env (render example_env headed_blank_markup)))) \<and>
   get_text (chord '' '') = '' '' \<and> isspace (CHR '' '') \<and>
   \<not> path_exists example_env headed_blank_markup \<and>
   Song_parse example_env (Some headed_blank_markup) = Inl IndexError \<and>
   Song_init example_env headed_blank_markup [] = Inl IndexError"
proof -
  have a: "find_tag ''h1'' (html_reader example_env (render example_env headed_blank_markup)) =
     Some (Tag ''h1'' [] [NavigableString ''Hum''])"
    by (simp add: example_soup) (simp add: headed_blank_soup_def)
  have b: "chord '' '' \<in> set (find_all is_chord_span
     (extract_tag ''h1'' (html_reader example_env (render example_env headed_blank_markup))))"
    by (simp add: example_soup)
       (simp add: headed_blank_soup_def chord_def split_ws_def isspace_def)
  have c: "\<forall>c\<in>set (get_text (chord '' '')). isspace c"
    by (simp add: chord_def isspace_def)
  have d: "\<not> path_exists example_env headed_blank_markup"
    by (simp add: example_env_def headed_blank_markup_def)
  have e: "get_text (chord '' '') = '' '' \<and> isspace (CHR '' '')"
    by (simp add: chord_def isspace_def)
  from blank_chord_span [OF a b c, of "[]"] a b d e show ?thesis
    by simp
qed

text \<open>
  Claim C6 does not hold of the code. A Song constructed from the markup of the
  end-to-end example, without keyword arguments, has that markup as its filename, and not
  the lowercased title, separator and artist that line 68 would compute: line 57 has
  assigned the filename before line 67 tests it for None.
\<close>

theorem filename_is_source:
  "\<not> path_exists example_env letitbe_markup \<and>
   Song_init example_env letitbe_markup [] = Inr letitbe_song \<and>
   filename letitbe_song = Some letitbe_markup \<and>
   default_filename letitbe_song = ''let it be_-_the beatles'' \<and>
   filename letitbe_song \<noteq> Some (default_filename letitbe_song)"
proof -
  have a: "\<not> path_exists example_env letitbe_markup"
    by (simp add: example_env_def letitbe_markup_def)
  have b: "filename letitbe_song = Some letitbe_markup"
    by (simp add: letitbe_song_def)
  have c: "default_filename letitbe_song = ''let it be_-_the beatles''"
    unfolding default_filename_def letitbe_song_def by code_simp
  have d: "letitbe_markup \<noteq> ''let it be_-_the beatles''"
    by (simp add: letitbe_markup_def)
  from a b c d letitbe_init show ?thesis by simp
qed

text \<open>
  Claim C7 does not hold of the code. Assigning to \<open>artist\<close> raises NameError and leaves
  the artist as it was, whereas the setter of \<open>title\<close> stores its argument. The same
  error ends a constructor that is given an \<open>artist\<close> keyword argument.
\<close>

theorem artist_setter_raises:
  "artist letitbe_song = Some ''The Beatles'' \<and>
   set_artist ''Beatles, The'' letitbe_song = (Some NameError, letitbe_song) \<and>
   artist (snd (set_artist ''Beatles, The'' letitbe_song)) \<noteq> Some ''Beatles, The'' \<and>
   set_title ''Let It Be (Naked)'' letitbe_song =
     (None, letitbe_song\<lparr>title := ''Let It Be (Naked)''\<rparr>) \<and>
   Song_init example_env letitbe_markup [KwArtist ''Beatles, The''] = Inl NameError"
proof -
  have "\<not> path_exists example_env letitbe_markup"
    by (simp add: example_env_def letitbe_markup_def)
  then have "Song_init example_env letitbe_markup [KwArtist ''Beatles, The''] = Inl NameError"
    by (simp add: Song_init_def Let_def letitbe_parse set_artist_def)
  then show ?thesis
    by (simp add: set_artist_def set_title_def letitbe_song_def)
qed

end
